theory Spec2Isabelle
  imports Complex_Main "HOL-Library.Sublist"
begin

section \<open>Python values\<close>

text \<open>
  Both scripts work on untyped documents: the JSON that the platform returns and the
  dictionaries written in the scripts themselves. A document is a value of \<open>pyval\<close>.
  A dictionary is an association list in insertion order, as Python keeps it. A float is
  given by the rational number it denotes (JSON has no NaN and no infinity). A string is
  the list of its Unicode code points.
\<close>

type_synonym pystr = "nat list"

datatype pyval =
    PNone
  | PBool bool
  | PInt int
  | PFloat rat
  | PStr pystr
  | PList "pyval list"
  | PDict "(pyval \<times> pyval) list"

type_synonym pydict = "(pyval \<times> pyval) list"

text \<open>The string that a literal of the scripts denotes: the keys and constants of the
  scripts are ASCII, written here as HOL strings.\<close>

definition str :: "string \<Rightarrow> pyval" where
  "str s = PStr (map of_char s)"

text \<open>The exceptions the modelled code can raise; the two \<open>RuntimeError\<close>s of
  \<open>build_restore_payload\<close> are told apart by their message.\<close>

datatype runtime_msg = No_associations | Destination_missing

datatype pyexn =
    RuntimeError runtime_msg
  | AttributeError
  | TypeError
  | ValueError
  | OverflowError

text \<open>Sequencing of calls that may raise: the first exception ends the computation.\<close>

definition and_then :: "pyexn + 'a \<Rightarrow> ('a \<Rightarrow> pyexn + 'b) \<Rightarrow> pyexn + 'b" where
  "and_then m f = (case m of Inl e \<Rightarrow> Inl e | Inr x \<Rightarrow> f x)"

text \<open>Truth value of an object, as \<open>if x\<close>, \<open>not x\<close> and \<open>x or y\<close> test it.\<close>

fun truthy :: "pyval \<Rightarrow> bool" where
  "truthy PNone = False"
| "truthy (PBool b) = b"
| "truthy (PInt i) = (i \<noteq> 0)"
| "truthy (PFloat r) = (r \<noteq> 0)"
| "truthy (PStr s) = (s \<noteq> [])"
| "truthy (PList xs) = (xs \<noteq> [])"
| "truthy (PDict d) = (d \<noteq> [])"

text \<open>\<open>x or y\<close> on values.\<close>

definition py_or :: "pyval \<Rightarrow> pyval \<Rightarrow> pyval" where
  "py_or x y = (if truthy x then x else y)"

text \<open>Equality of dictionary keys: numbers (booleans included) are equal when their
  values are, everything else when it is the same value.\<close>

fun num_val :: "pyval \<Rightarrow> rat option" where
  "num_val (PBool b) = Some (if b then 1 else 0)"
| "num_val (PInt i) = Some (of_int i)"
| "num_val (PFloat r) = Some r"
| "num_val v = None"

definition py_key_eq :: "pyval \<Rightarrow> pyval \<Rightarrow> bool" where
  "py_key_eq a b =
     (case num_val a of
        Some x \<Rightarrow> (case num_val b of Some y \<Rightarrow> x = y | None \<Rightarrow> False)
      | None \<Rightarrow> (case num_val b of Some y \<Rightarrow> False | None \<Rightarrow> a = b))"

fun hashable :: "pyval \<Rightarrow> bool" where
  "hashable (PList xs) = False"
| "hashable (PDict d) = False"
| "hashable v = True"

text \<open>\<open>d[k]\<close> read and \<open>d[k] = v\<close>: an existing key keeps its place, a new one goes
  to the end.\<close>

fun py_lookup :: "pydict \<Rightarrow> pyval \<Rightarrow> pyval option" where
  "py_lookup [] k = None"
| "py_lookup ((k', v') # d) k = (if py_key_eq k' k then Some v' else py_lookup d k)"

fun py_setitem :: "pydict \<Rightarrow> pyval \<Rightarrow> pyval \<Rightarrow> pydict" where
  "py_setitem [] k v = [(k, v)]"
| "py_setitem ((k', v') # d) k v =
     (if py_key_eq k' k then (k', v) # d else (k', v') # py_setitem d k v)"

text \<open>\<open>d.get(k, default)\<close> on a dictionary, and on any object: only a dictionary has
  the method.\<close>

definition dict_get :: "pydict \<Rightarrow> string \<Rightarrow> pyval \<Rightarrow> pyval" where
  "dict_get d k dflt = (case py_lookup d (str k) of Some v \<Rightarrow> v | None \<Rightarrow> dflt)"

fun py_get :: "pyval \<Rightarrow> string \<Rightarrow> pyval \<Rightarrow> pyexn + pyval" where
  "py_get (PDict d) k dflt = Inr (dict_get d k dflt)"
| "py_get v k dflt = Inl AttributeError"

text \<open>What a \<open>for\<close> loop iterates over: the items of a list, the keys of a dictionary,
  the characters of a string; other values are not iterable.\<close>

fun py_iter :: "pyval \<Rightarrow> pyexn + pyval list" where
  "py_iter (PList xs) = Inr xs"
| "py_iter (PDict d) = Inr (map fst d)"
| "py_iter (PStr s) = Inr (map (\<lambda>c. PStr [c]) s)"
| "py_iter v = Inl TypeError"

text \<open>\<open>dict(x)\<close>: a copy of a dictionary, or the dictionary built from an iterable of
  two-element items.\<close>

fun pair_of :: "pyval \<Rightarrow> pyexn + (pyval \<times> pyval)" where
  "pair_of (PList [k, v]) = Inr (k, v)"
| "pair_of (PList xs) = Inl ValueError"
| "pair_of (PStr [a, b]) = Inr (PStr [a], PStr [b])"
| "pair_of (PStr s) = Inl ValueError"
| "pair_of (PDict [(k1, v1), (k2, v2)]) = Inr (k1, k2)"
| "pair_of (PDict d) = Inl ValueError"
| "pair_of v = Inl TypeError"

fun dict_from_pairs :: "pydict \<Rightarrow> pyval list \<Rightarrow> pyexn + pydict" where
  "dict_from_pairs acc [] = Inr acc"
| "dict_from_pairs acc (x # xs) =
     (case pair_of x of
        Inl e \<Rightarrow> Inl e
      | Inr (k, v) \<Rightarrow>
          if hashable k then dict_from_pairs (py_setitem acc k v) xs else Inl TypeError)"

fun py_dict :: "pyval \<Rightarrow> pyexn + pydict" where
  "py_dict (PDict d) = Inr d"
| "py_dict v = and_then (py_iter v) (dict_from_pairs [])"


section \<open>trigger-scheduled-restore.py\<close>

text \<open>\<open>OVERRIDES\<close> as the script ships it. It is a constant that the operator edits, so
  the functions below take the override set as their first argument.\<close>

definition OVERRIDES :: pydict where
  "OVERRIDES =
     [(str ''destination'',
         PDict [(str ''destClient'', PDict [(str ''clientName'', str ''target-client'')]),
                (str ''destPath'', PList [str (''E:'' @ CHR 0x5C # ''restore_target'')])]),
      (str ''overwriteFiles'', PBool True),
      (str ''restoreACLsType'', str ''ACL_DATA'')]"

text \<open>\<open>normalize_associations\<close>: one five-field dictionary per association.\<close>

definition normalize_one :: "pyval \<Rightarrow> pyexn + pyval" where
  "normalize_one a =
     and_then (py_get a ''clientName'' PNone) (\<lambda>clientName.
     and_then (py_get a ''appName'' PNone) (\<lambda>appName.
     and_then (py_get a ''instanceId'' PNone) (\<lambda>instanceId.
     and_then (py_get a ''backupsetId'' PNone) (\<lambda>backupsetId.
     and_then (py_get a ''subclientId'' PNone) (\<lambda>subclientId.
       Inr (PDict [(str ''clientName'', clientName),
                   (str ''appName'', appName),
                   (str ''instanceId'', instanceId),
                   (str ''backupsetId'', backupsetId),
                   (str ''subclientId'', subclientId)]))))))"

fun normalize_loop :: "pyval list \<Rightarrow> pyval list \<Rightarrow> pyexn + pyval list" where
  "normalize_loop out [] = Inr out"
| "normalize_loop out (a # rest) =
     and_then (normalize_one a) (\<lambda>entry. normalize_loop (out @ [entry]) rest)"

definition normalize_associations :: "pyval \<Rightarrow> pyexn + pyval" where
  "normalize_associations associations =
     and_then (py_iter associations) (\<lambda>items.
     and_then (normalize_loop [] items) (\<lambda>out. Inr (PList out)))"

text \<open>\<open>is_in_place_restore\<close>: the heuristic of the script, in place when there is no
  destination.\<close>

definition is_in_place_restore :: "pydict \<Rightarrow> bool" where
  "is_in_place_restore restore_opts =
     (let dest = dict_get restore_opts ''destination'' PNone in \<not> truthy dest)"

text \<open>The loop of \<open>build_restore_payload\<close> that looks for the first RESTORE subtask;
  \<open>restore_opts\<close> starts as the empty dictionary and the loop stops at the first hit.\<close>

definition subtask_options :: "pyval \<Rightarrow> pyexn + pyval" where
  "subtask_options st =
     and_then (py_get st ''options'' (PDict [])) (\<lambda>opts.
       py_get opts ''restoreOptions'' (PDict []))"

fun find_restore_opts :: "pyval list \<Rightarrow> pyexn + pyval" where
  "find_restore_opts [] = Inr (PDict [])"
| "find_restore_opts (st # rest) =
     and_then (py_get st ''subTask'' (PDict [])) (\<lambda>subtask.
     and_then (py_get subtask ''operationType'' PNone) (\<lambda>operationType.
       if operationType = str ''RESTORE'' then subtask_options st
       else
         and_then (py_get subtask ''subTaskType'' PNone) (\<lambda>subTaskType.
           if subTaskType = str ''RESTORE'' then subtask_options st
           else find_restore_opts rest)))"

text \<open>The overrides applied on top of the copied options: the destination when the
  override is truthy, each of the two flags when its override is not \<open>None\<close>.\<close>

definition apply_destination :: "pydict \<Rightarrow> pydict \<Rightarrow> pydict" where
  "apply_destination ov merged =
     (if truthy (dict_get ov ''destination'' PNone)
      then py_setitem merged (str ''destination'') (dict_get ov ''destination'' PNone)
      else merged)"

definition apply_flag :: "pydict \<Rightarrow> string \<Rightarrow> pydict \<Rightarrow> pydict" where
  "apply_flag ov k merged =
     (if dict_get ov k PNone \<noteq> PNone
      then py_setitem merged (str k) (dict_get ov k PNone)
      else merged)"

definition apply_overrides :: "pydict \<Rightarrow> pydict \<Rightarrow> pydict" where
  "apply_overrides ov restore_opts =
     apply_flag ov ''restoreACLsType''
       (apply_flag ov ''overwriteFiles'' (apply_destination ov restore_opts))"

definition make_payload :: "pyval \<Rightarrow> pydict \<Rightarrow> pyval" where
  "make_payload associations merged_restore_opts =
     PDict [(str ''taskInfo'',
       PDict [(str ''task'',
                 PDict [(str ''initiatedFrom'', str ''COMMANDLINE''),
                        (str ''taskType'', PInt 0),
                        (str ''policyType'', str ''DATA_PROTECTION''),
                        (str ''taskFlags'', PDict [(str ''disabled'', PBool False)])]),
              (str ''associations'', associations),
              (str ''subTasks'',
                 PList [PDict [(str ''subTask'',
                                  PDict [(str ''subTaskType'', str ''RESTORE''),
                                         (str ''operationType'', str ''RESTORE'')]),
                               (str ''options'',
                                  PDict [(str ''restoreOptions'',
                                            PDict merged_restore_opts)])]])])]"

definition build_restore_payload :: "pydict \<Rightarrow> pyval \<Rightarrow> pyexn + pyval" where
  "build_restore_payload ov props =
     and_then (py_get props ''taskInfo'' (PDict [])) (\<lambda>ti.
     and_then (py_get ti ''associations'' (PList [])) (\<lambda>associations.
     and_then (py_get ti ''subTasks'' (PList [])) (\<lambda>sub_tasks.
       if \<not> truthy associations then Inl (RuntimeError No_associations)
       else
         and_then (py_iter sub_tasks) (\<lambda>sts.
         and_then (find_restore_opts sts) (\<lambda>restore_opts.
         and_then (py_dict restore_opts) (\<lambda>copied.
           (let merged_restore_opts = apply_overrides ov copied;
                dest = dict_get merged_restore_opts ''destination'' (PDict [])
            in if \<not> truthy dest \<and> \<not> is_in_place_restore merged_restore_opts
               then Inl (RuntimeError Destination_missing)
               else
                 and_then (normalize_associations associations) (\<lambda>normalized.
                   Inr (make_payload normalized merged_restore_opts)))))))))"

text \<open>The restore options a payload carries: \<open>taskInfo.subTasks[0].options.restoreOptions\<close>.\<close>

definition payload_restore_opts :: "pyval \<Rightarrow> pydict option" where
  "payload_restore_opts payload =
     (case payload of
        PDict p \<Rightarrow>
          (case py_lookup p (str ''taskInfo'') of
             Some (PDict ti) \<Rightarrow>
               (case py_lookup ti (str ''subTasks'') of
                  Some (PList (PDict st # rest)) \<Rightarrow>
                    (case py_lookup st (str ''options'') of
                       Some (PDict opts) \<Rightarrow>
                         (case py_lookup opts (str ''restoreOptions'') of
                            Some (PDict ro) \<Rightarrow> Some ro
                          | _ \<Rightarrow> None)
                     | _ \<Rightarrow> None)
                | _ \<Rightarrow> None)
           | _ \<Rightarrow> None)
      | _ \<Rightarrow> None)"


subsection \<open>Vocabulary of the statements\<close>

text \<open>The allow-list of \<open>normalize_associations\<close>, and the entry it writes for an
  association \<open>a\<close>.\<close>

definition allow_list :: "string list" where
  "allow_list = [''clientName'', ''appName'', ''instanceId'', ''backupsetId'', ''subclientId'']"

definition keep_allowed :: "pydict \<Rightarrow> pydict" where
  "keep_allowed a = map (\<lambda>k. (str k, dict_get a k PNone)) allow_list"

text \<open>A subtask entry of a schedule is an object whose \<open>subTask\<close> block, when present,
  is an object. It is a RESTORE subtask when the operation type or the subtask type of that
  block is \<open>"RESTORE"\<close>, the test of the loop in \<open>build_restore_payload\<close>.\<close>

fun subtask_block :: "pyval \<Rightarrow> pydict option" where
  "subtask_block (PDict d) =
     (case dict_get d ''subTask'' (PDict []) of PDict sub \<Rightarrow> Some sub | _ \<Rightarrow> None)"
| "subtask_block v = None"


definition other_subtask :: "pyval \<Rightarrow> bool" where
  "other_subtask st =
     (case subtask_block st of
        Some sub \<Rightarrow> dict_get sub ''operationType'' PNone \<noteq> str ''RESTORE''
                  \<and> dict_get sub ''subTaskType'' PNone \<noteq> str ''RESTORE''
      | None \<Rightarrow> False)"


text \<open>A small schedule used to exercise the statements: one association, a backup subtask,
  a RESTORE subtask whose options name no destination, and a second RESTORE subtask.\<close>

definition example_association :: pydict where
  "example_association = [(str ''clientName'', str ''c1''), (str ''hostName'', str ''h1'')]"

definition example_backup :: pyval where
  "example_backup = PDict [(str ''subTask'', PDict [(str ''operationType'', str ''BACKUP'')])]"

definition example_restore_options :: pydict where
  "example_restore_options =
     [(str ''overwriteFiles'', PBool False), (str ''allVersion'', PBool True)]"

definition example_restore :: pyval where
  "example_restore =
     PDict [(str ''subTask'', PDict [(str ''operationType'', str ''RESTORE'')]),
            (str ''options'', PDict [(str ''restoreOptions'', PDict example_restore_options)])]"


definition example_task_info :: "pyval list \<Rightarrow> pydict" where
  "example_task_info sub_tasks =
     [(str ''associations'', PList [PDict example_association]),
      (str ''subTasks'', PList sub_tasks)]"

definition example_props :: "pyval list \<Rightarrow> pyval" where
  "example_props sub_tasks = PDict [(str ''taskInfo'', PDict (example_task_info sub_tasks))]"


section \<open>run_schedules.py\<close>

subsection \<open>Policy invocation\<close>

text \<open>
  The SDK is not part of the repository, so \<open>SchedulePolicies\<close> is a parameter: a record
  of its operations over the state \<open>'w\<close> of the platform. Every call of the SDK may raise
  an exception of type \<open>'e\<close> (the exceptions that \<open>except Exception\<close> catches):
  \<open>construct\<close> is the constructor \<open>SchedulePolicies(commcell)\<close> and gives the exception
  it raises, if any; \<open>all_schedule_policies\<close> gives the size of the dictionary the SDK
  returns, which is all the script uses of it; \<open>run_now\<close> changes the platform.
\<close>

record ('w, 'k, 'p, 'r, 'e) schedule_policies =
  construct :: "'w \<Rightarrow> 'e option"
  all_schedule_policies :: "'w \<Rightarrow> 'e + nat"
  has_policy :: "'w \<Rightarrow> 'k \<Rightarrow> 'e + bool"
  get :: "'w \<Rightarrow> 'k \<Rightarrow> 'e + 'p"
  run_now :: "'w \<Rightarrow> 'p \<Rightarrow> ('e + 'r) \<times> 'w"

text \<open>The lines the two functions print.\<close>

datatype ('k, 'r, 'e) log_line =
    Found nat
  | Not_found 'k
  | Started 'k 'r
  | Run_failed 'k 'e

text \<open>The policy a printed line is about.\<close>

fun line_item :: "('k, 'r, 'e) log_line \<Rightarrow> 'k option" where
  "line_item (Found n) = None"
| "line_item (Not_found k) = Some k"
| "line_item (Started k r) = Some k"
| "line_item (Run_failed k e) = Some k"

text \<open>
  \<open>run_by_names\<close>: the function returns what was printed, the platform state, and the
  exception that ended it, if one did. Only \<open>policy.run_now()\<close> stands inside the
  \<open>try\<close>; an exception of the constructor, of \<open>all_schedule_policies\<close>, of
  \<open>has_policy\<close> or of \<open>sp.get(name)\<close> leaves the function.
\<close>

fun run_by_names_loop ::
  "('w, 'k, 'p, 'r, 'e) schedule_policies \<Rightarrow> 'k list \<Rightarrow> 'w \<Rightarrow> ('k, 'r, 'e) log_line list
     \<Rightarrow> ('k, 'r, 'e) log_line list \<times> 'w \<times> 'e option" where
  "run_by_names_loop sp [] w out = (out, w, None)"
| "run_by_names_loop sp (name # rest) w out =
     (case has_policy sp w name of
        Inl e \<Rightarrow> (out, w, Some e)
      | Inr present \<Rightarrow>
          if \<not> present then run_by_names_loop sp rest w (out @ [Not_found name])
          else
            (case get sp w name of
               Inl e \<Rightarrow> (out, w, Some e)
             | Inr policy \<Rightarrow>
                 (case run_now sp w policy of
                    (Inr job_ids, w') \<Rightarrow>
                      run_by_names_loop sp rest w' (out @ [Started name job_ids])
                  | (Inl e, w') \<Rightarrow>
                      run_by_names_loop sp rest w' (out @ [Run_failed name e]))))"

definition run_by_names ::
  "('w, 'k, 'p, 'r, 'e) schedule_policies \<Rightarrow> 'k list \<Rightarrow> 'w
     \<Rightarrow> ('k, 'r, 'e) log_line list \<times> 'w \<times> 'e option" where
  "run_by_names sp names w =
     (case construct sp w of
        Some e \<Rightarrow> ([], w, Some e)
      | None \<Rightarrow>
          (case all_schedule_policies sp w of
             Inl e \<Rightarrow> ([], w, Some e)
           | Inr n \<Rightarrow> run_by_names_loop sp names w [Found n]))"

text \<open>\<open>run_by_task_ids\<close>: \<open>sp.get(task_id)\<close> and \<open>policy.run_now()\<close> are each inside a
  \<open>try\<close>, so nothing leaves the loop; the constructor stands before it.\<close>

fun run_by_task_ids_loop ::
  "('w, 'k, 'p, 'r, 'e) schedule_policies \<Rightarrow> 'k list \<Rightarrow> 'w \<Rightarrow> ('k, 'r, 'e) log_line list
     \<Rightarrow> ('k, 'r, 'e) log_line list \<times> 'w" where
  "run_by_task_ids_loop sp [] w out = (out, w)"
| "run_by_task_ids_loop sp (task_id # rest) w out =
     (case get sp w task_id of
        Inl e \<Rightarrow> run_by_task_ids_loop sp rest w (out @ [Not_found task_id])
      | Inr policy \<Rightarrow>
          (case run_now sp w policy of
             (Inr job_ids, w') \<Rightarrow> run_by_task_ids_loop sp rest w' (out @ [Started task_id job_ids])
           | (Inl e, w') \<Rightarrow> run_by_task_ids_loop sp rest w' (out @ [Run_failed task_id e])))"

definition run_by_task_ids ::
  "('w, 'k, 'p, 'r, 'e) schedule_policies \<Rightarrow> 'k list \<Rightarrow> 'w
     \<Rightarrow> ('k, 'r, 'e) log_line list \<times> 'w \<times> 'e option" where
  "run_by_task_ids sp ids w =
     (case construct sp w of
        Some e \<Rightarrow> ([], w, Some e)
      | None \<Rightarrow> (case run_by_task_ids_loop sp ids w [] of (out, w') \<Rightarrow> (out, w', None)))"

subsection \<open>Recent-jobs scan\<close>

text \<open>The constants of the script that the operator edits.\<close>

record config =
  USER :: pystr
  RECENT_WINDOW_MINUTES :: int

text \<open>
  Two operations of the Python library are not determined by the repository and are
  parameters of the model: what \<open>str.lower\<close> gives on a string that has a code point
  outside ASCII (the Unicode case mapping), and the microsecond that
  \<open>datetime.fromtimestamp\<close> computes from a float (it rounds a product of doubles, which
  can differ by one from the rounding of the exact value).
\<close>

record stdlib =
  lower_non_ascii :: "pystr \<Rightarrow> pystr"
  us_of_float :: "rat \<Rightarrow> int"

text \<open>\<open>str.lower\<close>: on an ASCII string the letters \<open>A\<close> to \<open>Z\<close> move to \<open>a\<close> to \<open>z\<close> and
  nothing else changes. \<open>needle in haystack\<close> on strings.\<close>

definition ascii_lower :: "nat \<Rightarrow> nat" where
  "ascii_lower c = (if 65 \<le> c \<and> c \<le> 90 then c + 32 else c)"

definition str_lower :: "stdlib \<Rightarrow> pystr \<Rightarrow> pystr" where
  "str_lower lib s =
     (if list_all (\<lambda>c. c < 128) s then map ascii_lower s else lower_non_ascii lib s)"

fun str_contains :: "'a list \<Rightarrow> 'a list \<Rightarrow> bool" where
  "str_contains needle [] = (needle = [])"
| "str_contains needle (c # hay) = (prefix needle (c # hay) \<or> str_contains needle hay)"

text \<open>The method call \<open>x.lower()\<close> on any object: only a string has it.\<close>

fun py_lower :: "stdlib \<Rightarrow> pyval \<Rightarrow> pyexn + pystr" where
  "py_lower lib (PStr s) = Inr (str_lower lib s)"
| "py_lower lib v = Inl AttributeError"

text \<open>
  An aware UTC \<open>datetime\<close> is the number of microseconds since the epoch; \<open>min_us\<close> and
  \<open>max_us\<close> are \<open>datetime.min\<close> and \<open>datetime.max\<close>. \<open>datetime.fromtimestamp(t, tz=utc)\<close>
  takes seconds, an integer exactly and a float to the microsecond, and raises outside
  the years 1 to 9999 (a value that does not fit the 64-bit \<open>time_t\<close> is an
  \<open>OverflowError\<close>), as CPython does on a 64-bit POSIX platform. A boolean is an integer
  in Python.
\<close>

definition min_us :: int where
  "min_us = - 62135596800 * 1000000"

definition max_us :: int where
  "max_us = 253402300799 * 1000000 + 999999"

definition in_datetime_range :: "int \<Rightarrow> pyexn + int" where
  "in_datetime_range us = (if min_us \<le> us \<and> us \<le> max_us then Inr us else Inl ValueError)"

fun fromtimestamp :: "stdlib \<Rightarrow> pyval \<Rightarrow> pyexn + int" where
  "fromtimestamp lib (PBool b) = Inr (if b then 1000000 else 0)"
| "fromtimestamp lib (PInt n) =
     (if n < - (2 ^ 63) \<or> 2 ^ 63 \<le> n then Inl OverflowError
      else in_datetime_range (n * 1000000))"
| "fromtimestamp lib (PFloat r) =
     (if r < - (2 ^ 63) \<or> 2 ^ 63 \<le> r then Inl OverflowError
      else in_datetime_range (us_of_float lib r))"
| "fromtimestamp lib v = Inl TypeError"

text \<open>\<open>isinstance(x, (int, float))\<close>.\<close>

fun isinstance_int_float :: "pyval \<Rightarrow> bool" where
  "isinstance_int_float (PBool b) = True"
| "isinstance_int_float (PInt n) = True"
| "isinstance_int_float (PFloat r) = True"
| "isinstance_int_float v = False"

text \<open>
  \<open>cutoff = datetime.now(timezone.utc) - timedelta(minutes=RECENT_WINDOW_MINUTES)\<close>, for
  the clock reading \<open>now\<close>: a \<open>timedelta\<close> has less than a thousand million days, and the
  difference must be a \<open>datetime\<close>.
\<close>

definition cutoff_of :: "config \<Rightarrow> int \<Rightarrow> pyexn + int" where
  "cutoff_of cfg now =
     (let delta = RECENT_WINDOW_MINUTES cfg * 60000000
      in if delta < - 999999999 * 86400000000 \<or> 1000000000 * 86400000000 \<le> delta
         then Inl OverflowError
         else if now - delta < min_us \<or> max_us < now - delta then Inl OverflowError
         else Inr (now - delta))"

text \<open>
  The body of the \<open>try\<close> in \<open>list_recent_jobs\<close> for one entry of the job dictionary:
  \<open>Inr (Some \<dots>)\<close> when the entry is appended to \<open>recent\<close>, \<open>Inr None\<close> when it is not,
  \<open>Inl\<close> when the body raises.
\<close>

definition recent_entry ::
  "stdlib \<Rightarrow> config \<Rightarrow> int \<Rightarrow> pyval \<Rightarrow> pyval \<Rightarrow> pyexn + (pyval \<times> int \<times> pyval) option" where
  "recent_entry lib cfg cutoff jid details =
     and_then (py_get details ''submitTime'' PNone) (\<lambda>t1.
     and_then (if truthy t1 then Inr t1 else py_get details ''startTime'' PNone) (\<lambda>submit_time.
     and_then (if isinstance_int_float submit_time
               then and_then (fromtimestamp lib submit_time) (\<lambda>t. Inr (Some t))
               else Inr None) (\<lambda>submitted.
     and_then (py_get details ''userName'' PNone) (\<lambda>u1.
     and_then (if truthy u1 then Inr u1 else py_get details ''user'' PNone) (\<lambda>u2.
     and_then (py_lower lib (if truthy u2 then u2 else PStr [])) (\<lambda>user.
       (case submitted of
          None \<Rightarrow> Inr None
        | Some t \<Rightarrow>
            if cutoff \<le> t \<and> str_contains (str_lower lib (USER cfg)) user
            then and_then (py_get details ''status'' PNone) (\<lambda>status.
                   Inr (Some (jid, t, status)))
            else Inr None)))))))"

text \<open>The loop over \<open>all_jobs.items()\<close>; an entry whose body raises is skipped.\<close>

fun scan_jobs ::
  "stdlib \<Rightarrow> config \<Rightarrow> int \<Rightarrow> (pyval \<times> pyval) list \<Rightarrow> (pyval \<times> int \<times> pyval) list
     \<Rightarrow> (pyval \<times> int \<times> pyval) list" where
  "scan_jobs lib cfg cutoff [] recent = recent"
| "scan_jobs lib cfg cutoff ((jid, details) # rest) recent =
     (case recent_entry lib cfg cutoff jid details of
        Inl e \<Rightarrow> scan_jobs lib cfg cutoff rest recent
      | Inr None \<Rightarrow> scan_jobs lib cfg cutoff rest recent
      | Inr (Some r) \<Rightarrow> scan_jobs lib cfg cutoff rest (recent @ [r]))"

text \<open>\<open>x.items()\<close> on any object.\<close>

fun py_items :: "pyval \<Rightarrow> pyexn + (pyval \<times> pyval) list" where
  "py_items (PDict d) = Inr d"
| "py_items v = Inl AttributeError"

text \<open>What \<open>list_recent_jobs\<close> prints, for the clock reading \<open>now\<close> and the value
  \<open>all_jobs\<close> that the job controller returns.\<close>

datatype out_line =
    Jobs_header
  | Job_line pyval int pyval
  | No_recent_jobs

fun job_line :: "pyval \<times> int \<times> pyval \<Rightarrow> out_line" where
  "job_line (jid, t, status) = Job_line jid t status"

definition list_recent_jobs :: "stdlib \<Rightarrow> config \<Rightarrow> int \<Rightarrow> pyval \<Rightarrow> pyexn + out_line list" where
  "list_recent_jobs lib cfg now all_jobs =
     and_then (cutoff_of cfg now) (\<lambda>cutoff.
     and_then (py_items (py_or all_jobs (PDict []))) (\<lambda>items.
       (let recent = scan_jobs lib cfg cutoff items []
        in if recent \<noteq> []
           then Inr (Jobs_header # map job_line (sort_key (\<lambda>x. fst (snd x)) recent))
           else Inr [No_recent_jobs])))"

text \<open>The submit times of the job lines printed, in the order printed.\<close>

fun line_time :: "out_line \<Rightarrow> int option" where
  "line_time (Job_line jid t status) = Some t"
| "line_time l = None"

definition printed_times :: "out_line list \<Rightarrow> int list" where
  "printed_times out = List.map_filter line_time out"


subsection \<open>Vocabulary of the statements\<close>

text \<open>A platform to exercise the statements: \<open>has_policy\<close> reports every name present,
  \<open>get\<close> raises for the policy \<open>nightly\<close>, and every run starts job 101.\<close>

definition flaky_sp :: "(unit, string, string, nat list, string) schedule_policies" where
  "flaky_sp =
     \<lparr>construct = (\<lambda>w. None),
      all_schedule_policies = (\<lambda>w. Inr 2),
      has_policy = (\<lambda>w name. Inr True),
      get = (\<lambda>w name. if name = ''nightly'' then Inl ''timeout'' else Inr name),
      run_now = (\<lambda>w policy. (Inr [101], w))\<rparr>"

text \<open>A second platform, on which the call \<open>sp.all_schedule_policies()\<close> raises.\<close>

definition listing_fails_sp :: "(unit, string, string, nat list, string) schedule_policies" where
  "listing_fails_sp =
     \<lparr>construct = (\<lambda>w. None),
      all_schedule_policies = (\<lambda>w. Inl ''not callable''),
      has_policy = (\<lambda>w name. Inr True),
      get = (\<lambda>w name. Inr name),
      run_now = (\<lambda>w policy. (Inr [101], w))\<rparr>"

text \<open>
  The value that \<open>list_recent_jobs\<close> reads as the submit time of a job
  (\<open>details.get("submitTime") or details.get("startTime")\<close>), and the value whose lower
  case it compares with the configured user
  (\<open>details.get("userName") or details.get("user") or ""\<close>).
\<close>

definition submit_time_field :: "pydict \<Rightarrow> pyval" where
  "submit_time_field d = py_or (dict_get d ''submitTime'' PNone) (dict_get d ''startTime'' PNone)"

definition user_field :: "pydict \<Rightarrow> pyval" where
  "user_field d =
     py_or (py_or (dict_get d ''userName'' PNone) (dict_get d ''user'' PNone)) (PStr [])"

text \<open>A library, a configuration, a clock reading and a job dictionary to exercise the
  statements. The strings are ASCII and the times are integers, so the two parameters of
  the library play no part in them.\<close>

definition example_stdlib :: stdlib where
  "example_stdlib = \<lparr>lower_non_ascii = id, us_of_float = (\<lambda>r. \<lfloor>r * 1000000\<rfloor>)\<rparr>"

definition example_config :: config where
  "example_config = \<lparr>USER = map of_char ''Bob'', RECENT_WINDOW_MINUTES = 3\<rparr>"

definition example_now :: int where
  "example_now = 1700000000 * 1000000"

definition example_jobs :: pydict where
  "example_jobs =
     [(PInt 1, PDict [(str ''submitTime'', PInt 1699999990), (str ''userName'', str ''BOB''),
                      (str ''status'', str ''Running'')]),
      (PInt 2, PDict [(str ''submitTime'', PInt 1699999950), (str ''userName'', str ''alice'')]),
      (PInt 3, PDict [(str ''submitTime'', str ''2023-11-14T22:13:00Z''),
                      (str ''userName'', str ''bob'')]),
      (PInt 4, PDict [(str ''startTime'', PInt 1699999900), (str ''user'', str ''bob'')]),
      (PInt 5, PDict [(str ''submitTime'', PInt 1699990000), (str ''userName'', str ''bob'')])]"


section \<open>Basic facts\<close>

lemma str_eq_iff [simp]: "str a = str b \<longleftrightarrow> a = b"
  using inj_of_char [where ?'a = nat] by (auto simp: str_def inj_map_eq_map)

lemma str_distinct [simp]:
  "str s \<noteq> PNone" "str s \<noteq> PBool b" "str s \<noteq> PInt i" "str s \<noteq> PFloat r"
  "str s \<noteq> PList xs" "str s \<noteq> PDict d"
  "PNone \<noteq> str s" "PBool b \<noteq> str s" "PInt i \<noteq> str s" "PFloat r \<noteq> str s"
  "PList xs \<noteq> str s" "PDict d \<noteq> str s"
  by (simp_all add: str_def)

lemma truthy_str [simp]: "truthy (str s) \<longleftrightarrow> s \<noteq> []"
  by (simp add: str_def)

lemma str_simps [simp]:
  "num_val (str s) = None" "hashable (str s)" "py_get (str s) k dflt = Inl AttributeError"
  "py_items (str s) = Inl AttributeError" "\<not> isinstance_int_float (str s)"
  "subtask_block (str s) = None"
  by (simp_all add: str_def)

lemma case_pyval_str [simp]: "case_pyval a b c d e f g (str s) = e (map of_char s)"
  by (simp add: str_def)

lemma str_eq_PStr [simp]:
  "str s = PStr u \<longleftrightarrow> u = map of_char s" "PStr u = str s \<longleftrightarrow> u = map of_char s"
  by (auto simp: str_def)

lemma py_lower_str: "py_lower lib (str s) = Inr (str_lower lib (map of_char s))"
  by (simp add: str_def)

lemma and_then_Inl [simp]: "and_then (Inl e) f = Inl e"
  by (simp add: and_then_def)

lemma and_then_Inr [simp]: "and_then (Inr x) f = f x"
  by (simp add: and_then_def)

lemma and_then_eq_Inr:
  "and_then m f = Inr y \<longleftrightarrow> (\<exists>x. m = Inr x \<and> f x = Inr y)"
  by (cases m) simp_all

lemma py_key_eq_str [simp]: "py_key_eq k (str s) \<longleftrightarrow> k = str s"
  by (cases k) (simp_all add: py_key_eq_def)

lemma py_key_eq_str_left [simp]: "py_key_eq (str s) k \<longleftrightarrow> k = str s"
  by (cases k) (auto simp add: py_key_eq_def)

lemma py_lookup_setitem_str:
  "py_lookup (py_setitem d (str s) v) k = (if k = str s then Some v else py_lookup d k)"
  by (induction d) auto

lemma dict_get_Some:
  "dict_get d k PNone \<noteq> PNone \<Longrightarrow> py_lookup d (str k) = Some (dict_get d k PNone)"
  by (auto simp: dict_get_def split: option.splits)

lemma subtask_block_SomeD:
  "subtask_block st = Some sub \<Longrightarrow>
     \<exists>d. st = PDict d \<and> dict_get d ''subTask'' (PDict []) = PDict sub"
  by (cases st) (auto split: pyval.splits)

lemma find_restore_opts_other:
  "other_subtask st \<Longrightarrow> find_restore_opts (st # rest) = find_restore_opts rest"
  by (auto simp: other_subtask_def split: option.splits dest!: subtask_block_SomeD)


lemma find_restore_opts_skip:
  "list_all other_subtask pre \<Longrightarrow> find_restore_opts (pre @ rest) = find_restore_opts rest"
proof (induction pre)
  case Nil
  show ?case by simp
next
  case (Cons st pre)
  then show ?case using find_restore_opts_other [of st "pre @ rest"] by simp
qed

lemma normalize_one_dict: "normalize_one (PDict a) = Inr (PDict (keep_allowed a))"
  by (simp add: normalize_one_def keep_allowed_def allow_list_def)

lemma normalize_loop_dicts:
  "normalize_loop out (map PDict as) = Inr (out @ map (\<lambda>a. PDict (keep_allowed a)) as)"
  by (induction as arbitrary: out) (simp_all add: normalize_one_dict)

lemma normalize_associations_dicts:
  "normalize_associations (PList (map PDict as)) = Inr (PList (map (\<lambda>a. PDict (keep_allowed a)) as))"
  by (simp add: normalize_associations_def normalize_loop_dicts)

lemma destination_check_passes:
  "\<not> (\<not> truthy (dict_get merged ''destination'' (PDict [])) \<and> \<not> is_in_place_restore merged)"
  by (auto simp: is_in_place_restore_def dict_get_def split: option.splits)

lemma build_restore_payload_returns:
  assumes "py_get props ''taskInfo'' (PDict []) = Inr (PDict ti)"
    and "dict_get ti ''associations'' (PList []) = PList (map PDict as)"
    and "as \<noteq> []"
    and "py_iter (dict_get ti ''subTasks'' (PList [])) = Inr sts"
    and "find_restore_opts sts = Inr ro"
    and "py_dict ro = Inr sched"
  shows "build_restore_payload ov props =
           Inr (make_payload (PList (map (\<lambda>a. PDict (keep_allowed a)) as)) (apply_overrides ov sched))"
  using assms destination_check_passes [of "apply_overrides ov sched"]
  by (simp add: build_restore_payload_def normalize_associations_dicts Let_def)

lemma payload_restore_opts_make [simp]:
  "payload_restore_opts (make_payload a merged) = Some merged"
  by (simp add: payload_restore_opts_def make_payload_def)


lemma py_lookup_apply_overrides:
  "py_lookup (apply_overrides ov d) k =
     (if k = str ''restoreACLsType'' \<and> dict_get ov ''restoreACLsType'' PNone \<noteq> PNone
        then Some (dict_get ov ''restoreACLsType'' PNone)
      else if k = str ''overwriteFiles'' \<and> dict_get ov ''overwriteFiles'' PNone \<noteq> PNone
        then Some (dict_get ov ''overwriteFiles'' PNone)
      else if k = str ''destination'' \<and> truthy (dict_get ov ''destination'' PNone)
        then Some (dict_get ov ''destination'' PNone)
      else py_lookup d k)"
  by (simp add: apply_overrides_def apply_flag_def apply_destination_def py_lookup_setitem_str)

lemma set_apply_overrides_empty:
  "set (apply_overrides ov []) \<subseteq>
     (\<lambda>k. (str k, dict_get ov k PNone)) ` {''destination'', ''overwriteFiles'', ''restoreACLsType''}"
  by (auto simp: apply_overrides_def apply_flag_def apply_destination_def py_key_eq_def)

lemma py_get_Inl: "py_get v k dflt = Inl e \<Longrightarrow> e = AttributeError"
  by (cases v) simp_all

lemma py_iter_Inl: "py_iter v = Inl e \<Longrightarrow> e = TypeError"
  by (cases v) simp_all

lemma subtask_options_Inl: "subtask_options st = Inl e \<Longrightarrow> e = AttributeError"
  by (auto simp: subtask_options_def and_then_def split: sum.splits dest: py_get_Inl)

lemma find_restore_opts_Inl: "find_restore_opts sts = Inl e \<Longrightarrow> e = AttributeError"
  by (induction sts)
     (auto simp: and_then_def split: sum.splits if_splits dest: py_get_Inl subtask_options_Inl)

lemma pair_of_Inl: "pair_of x = Inl e \<Longrightarrow> e = ValueError \<or> e = TypeError"
  by (induction x rule: pair_of.induct) simp_all

lemma dict_from_pairs_Inl: "dict_from_pairs acc xs = Inl e \<Longrightarrow> e = ValueError \<or> e = TypeError"
  by (induction xs arbitrary: acc) (auto split: sum.splits if_splits dest: pair_of_Inl)

lemma py_dict_Inl: "py_dict v = Inl e \<Longrightarrow> e = ValueError \<or> e = TypeError"
  by (cases v) (auto simp: and_then_def split: sum.splits dest: dict_from_pairs_Inl)

lemma normalize_one_Inl: "normalize_one a = Inl e \<Longrightarrow> e = AttributeError"
  by (cases a) (simp_all add: normalize_one_def)

lemma normalize_loop_Inl: "normalize_loop out as = Inl e \<Longrightarrow> e = AttributeError"
  by (induction as arbitrary: out) (auto simp: and_then_def split: sum.splits dest: normalize_one_Inl)

lemma normalize_associations_Inl:
  "normalize_associations v = Inl e \<Longrightarrow> e = AttributeError \<or> e = TypeError"
  by (auto simp: normalize_associations_def and_then_def split: sum.splits
           dest: py_iter_Inl normalize_loop_Inl)

text \<open>The error for a missing destination is never raised, whatever the overrides and the
  schedule are: every other call of the builder raises an error of another kind.\<close>

lemma build_restore_payload_never_destination_missing:
  "build_restore_payload ov props \<noteq> Inl (RuntimeError Destination_missing)"
proof
  assume a: "build_restore_payload ov props = Inl (RuntimeError Destination_missing)"
  show False
    using a destination_check_passes
    by (auto simp: build_restore_payload_def and_then_def Let_def
             split: sum.splits if_splits
             dest: py_get_Inl py_iter_Inl find_restore_opts_Inl py_dict_Inl
                   normalize_associations_Inl)
qed


section \<open>The payload builder\<close>

text \<open>
  Claim C6. When the \<open>associations\<close> list of the schedule is missing or empty,
  \<open>build_restore_payload\<close> raises the "no associations" error and returns no payload,
  whatever the overrides are. A missing \<open>taskInfo\<close> is the empty object, so it has no
  associations either.
\<close>

theorem build_restore_payload_no_associations:
  assumes "py_get props ''taskInfo'' (PDict []) = Inr (PDict ti)"
    and "py_lookup ti (str ''associations'') = None
         \<or> py_lookup ti (str ''associations'') = Some (PList [])"
  shows "build_restore_payload ov props = Inl (RuntimeError No_associations)"
proof -
  from assms(2) have "\<not> truthy (dict_get ti ''associations'' (PList []))"
    by (auto simp: dict_get_def)
  with assms(1) show ?thesis
    by (simp add: build_restore_payload_def)
qed

theorem build_restore_payload_no_associations_witness:
  "py_lookup [(str ''subTasks'', PList [example_restore])] (str ''associations'') = None
   \<and> build_restore_payload OVERRIDES
         (PDict [(str ''taskInfo'', PDict [(str ''subTasks'', PList [example_restore])])])
       = Inl (RuntimeError No_associations)"
  using build_restore_payload_no_associations
    [of "PDict [(str ''taskInfo'', PDict [(str ''subTasks'', PList [example_restore])])]"
        "[(str ''subTasks'', PList [example_restore])]" OVERRIDES]
  by (simp add: dict_get_def)






text \<open>
  Claim C3. Whenever the payload is built, the restore options it carries are the options
  of the schedule with the overrides on top. Under a key whose override is set (a truthy
  \<open>destination\<close>, an \<open>overwriteFiles\<close> or \<open>restoreACLsType\<close> that is not \<open>None\<close>) they
  have the value of the override, whatever the schedule had there; under every other
  key, those three included when their override is not set, they read exactly as the
  options of the schedule do. This holds for every schedule that is built, so in
  particular for those that end up with a destination.
\<close>

theorem build_restore_payload_overrides_win:
  assumes "py_get props ''taskInfo'' (PDict []) = Inr (PDict ti)"
    and "dict_get ti ''associations'' (PList []) = PList (map PDict as)"
    and "as \<noteq> []"
    and "py_iter (dict_get ti ''subTasks'' (PList [])) = Inr sts"
    and "find_restore_opts sts = Inr ro"
    and "py_dict ro = Inr sched"
  shows "\<exists>payload merged.
           build_restore_payload ov props = Inr payload
         \<and> payload_restore_opts payload = Some merged
         \<and> py_lookup merged (str ''destination'') =
             (if truthy (dict_get ov ''destination'' PNone)
              then Some (dict_get ov ''destination'' PNone)
              else py_lookup sched (str ''destination''))
         \<and> (\<forall>k \<in> {''overwriteFiles'', ''restoreACLsType''}.
              py_lookup merged (str k) =
                (if dict_get ov k PNone \<noteq> PNone then Some (dict_get ov k PNone)
                 else py_lookup sched (str k)))
         \<and> (\<forall>k. k \<notin> {str ''destination'', str ''overwriteFiles'', str ''restoreACLsType''} \<longrightarrow>
              py_lookup merged k = py_lookup sched k)"
proof (intro exI conjI)
  show "build_restore_payload ov props =
      Inr (make_payload (PList (map (\<lambda>a. PDict (keep_allowed a)) as)) (apply_overrides ov sched))"
    by (rule build_restore_payload_returns [OF assms])
  show "payload_restore_opts
      (make_payload (PList (map (\<lambda>a. PDict (keep_allowed a)) as)) (apply_overrides ov sched))
      = Some (apply_overrides ov sched)"
    by simp
  show "py_lookup (apply_overrides ov sched) (str ''destination'') =
      (if truthy (dict_get ov ''destination'' PNone)
       then Some (dict_get ov ''destination'' PNone)
       else py_lookup sched (str ''destination''))"
    by (simp add: py_lookup_apply_overrides)
  show "\<forall>k \<in> {''overwriteFiles'', ''restoreACLsType''}.
      py_lookup (apply_overrides ov sched) (str k) =
        (if dict_get ov k PNone \<noteq> PNone then Some (dict_get ov k PNone)
         else py_lookup sched (str k))"
    by (simp add: py_lookup_apply_overrides)
  show "\<forall>k. k \<notin> {str ''destination'', str ''overwriteFiles'', str ''restoreACLsType''} \<longrightarrow>
      py_lookup (apply_overrides ov sched) k = py_lookup sched k"
    by (simp add: py_lookup_apply_overrides)
qed

theorem build_restore_payload_overrides_win_witness:
  "(\<exists>payload merged.
      build_restore_payload OVERRIDES (example_props [example_backup, example_restore]) = Inr payload
    \<and> payload_restore_opts payload = Some merged
    \<and> py_lookup example_restore_options (str ''overwriteFiles'') = Some (PBool False)
    \<and> py_lookup merged (str ''overwriteFiles'') = Some (PBool True)
    \<and> py_lookup merged (str ''restoreACLsType'') = Some (str ''ACL_DATA'')
    \<and> py_lookup merged (str ''destination'') = py_lookup OVERRIDES (str ''destination'')
    \<and> py_lookup merged (str ''allVersion'') = Some (PBool True))
   \<and> (\<exists>payload merged.
      build_restore_payload [(str ''restoreACLsType'', str ''ACL_ONLY'')]
        (example_props [example_backup, example_restore]) = Inr payload
    \<and> payload_restore_opts payload = Some merged
    \<and> py_lookup merged (str ''overwriteFiles'') = Some (PBool False)
    \<and> py_lookup merged (str ''restoreACLsType'') = Some (str ''ACL_ONLY'')
    \<and> py_lookup merged (str ''destination'') = None)"
proof -
  let ?props = "example_props [example_backup, example_restore]"
  have wf: "py_get ?props ''taskInfo'' (PDict [])
        = Inr (PDict (example_task_info [example_backup, example_restore]))"
      "dict_get (example_task_info [example_backup, example_restore]) ''associations'' (PList [])
        = PList (map PDict [example_association])"
      "[example_association] \<noteq> []"
      "py_iter (dict_get (example_task_info [example_backup, example_restore]) ''subTasks'' (PList []))
        = Inr [example_backup, example_restore]"
      "find_restore_opts [example_backup, example_restore] = Inr (PDict example_restore_options)"
      "py_dict (PDict example_restore_options) = Inr example_restore_options"
    by (simp_all add: example_props_def example_task_info_def example_backup_def
          example_restore_def dict_get_def subtask_options_def)
  have sched: "py_lookup example_restore_options (str ''overwriteFiles'') = Some (PBool False)"
      "py_lookup example_restore_options (str ''allVersion'') = Some (PBool True)"
      "py_lookup example_restore_options (str ''destination'') = None"
    by (simp_all add: example_restore_options_def)
  have ov: "dict_get OVERRIDES ''overwriteFiles'' PNone = PBool True"
      "dict_get OVERRIDES ''restoreACLsType'' PNone = str ''ACL_DATA''"
      "truthy (dict_get OVERRIDES ''destination'' PNone)"
      "py_lookup OVERRIDES (str ''destination'') = Some (dict_get OVERRIDES ''destination'' PNone)"
    by (simp_all add: OVERRIDES_def dict_get_def)
  have one: "dict_get [(str ''restoreACLsType'', str ''ACL_ONLY'')] ''overwriteFiles'' PNone = PNone"
      "dict_get [(str ''restoreACLsType'', str ''ACL_ONLY'')] ''restoreACLsType'' PNone
         = str ''ACL_ONLY''"
      "\<not> truthy (dict_get [(str ''restoreACLsType'', str ''ACL_ONLY'')] ''destination'' PNone)"
    by (simp_all add: dict_get_def)
  have first: "\<exists>payload merged.
      build_restore_payload OVERRIDES ?props = Inr payload
    \<and> payload_restore_opts payload = Some merged
    \<and> py_lookup example_restore_options (str ''overwriteFiles'') = Some (PBool False)
    \<and> py_lookup merged (str ''overwriteFiles'') = Some (PBool True)
    \<and> py_lookup merged (str ''restoreACLsType'') = Some (str ''ACL_DATA'')
    \<and> py_lookup merged (str ''destination'') = py_lookup OVERRIDES (str ''destination'')
    \<and> py_lookup merged (str ''allVersion'') = Some (PBool True)"
  proof -
    from build_restore_payload_overrides_win [OF wf, of OVERRIDES]
    obtain payload merged where
      r: "build_restore_payload OVERRIDES ?props = Inr payload"
         "payload_restore_opts payload = Some merged"
      and d: "py_lookup merged (str ''destination'') =
               (if truthy (dict_get OVERRIDES ''destination'' PNone)
                then Some (dict_get OVERRIDES ''destination'' PNone)
                else py_lookup example_restore_options (str ''destination''))"
      and f: "\<forall>k \<in> {''overwriteFiles'', ''restoreACLsType''}.
                py_lookup merged (str k) =
                  (if dict_get OVERRIDES k PNone \<noteq> PNone then Some (dict_get OVERRIDES k PNone)
                   else py_lookup example_restore_options (str k))"
      and k: "\<forall>k. k \<notin> {str ''destination'', str ''overwriteFiles'', str ''restoreACLsType''} \<longrightarrow>
                py_lookup merged k = py_lookup example_restore_options k"
      by blast
    from f ov have f1: "py_lookup merged (str ''overwriteFiles'') = Some (PBool True)"
      and f2: "py_lookup merged (str ''restoreACLsType'') = Some (str ''ACL_DATA'')"
      by simp_all
    from d ov have d1: "py_lookup merged (str ''destination'') = py_lookup OVERRIDES (str ''destination'')"
      by simp
    from k sched have k1: "py_lookup merged (str ''allVersion'') = Some (PBool True)"
      by simp
    from r sched f1 f2 d1 k1 show ?thesis by blast
  qed
  have second: "\<exists>payload merged.
      build_restore_payload [(str ''restoreACLsType'', str ''ACL_ONLY'')] ?props = Inr payload
    \<and> payload_restore_opts payload = Some merged
    \<and> py_lookup merged (str ''overwriteFiles'') = Some (PBool False)
    \<and> py_lookup merged (str ''restoreACLsType'') = Some (str ''ACL_ONLY'')
    \<and> py_lookup merged (str ''destination'') = None"
  proof -
    from build_restore_payload_overrides_win
      [OF wf, of "[(str ''restoreACLsType'', str ''ACL_ONLY'')]"]
    obtain payload merged where
      r: "build_restore_payload [(str ''restoreACLsType'', str ''ACL_ONLY'')] ?props = Inr payload"
         "payload_restore_opts payload = Some merged"
      and d: "py_lookup merged (str ''destination'') =
               (if truthy (dict_get [(str ''restoreACLsType'', str ''ACL_ONLY'')] ''destination'' PNone)
                then Some (dict_get [(str ''restoreACLsType'', str ''ACL_ONLY'')] ''destination'' PNone)
                else py_lookup example_restore_options (str ''destination''))"
      and f: "\<forall>k \<in> {''overwriteFiles'', ''restoreACLsType''}.
                py_lookup merged (str k) =
                  (if dict_get [(str ''restoreACLsType'', str ''ACL_ONLY'')] k PNone \<noteq> PNone
                   then Some (dict_get [(str ''restoreACLsType'', str ''ACL_ONLY'')] k PNone)
                   else py_lookup example_restore_options (str k))"
      by blast
    from f one sched have f1: "py_lookup merged (str ''overwriteFiles'') = Some (PBool False)"
      and f2: "py_lookup merged (str ''restoreACLsType'') = Some (str ''ACL_ONLY'')"
      by simp_all
    from d one sched have d1: "py_lookup merged (str ''destination'') = None"
      by simp
    from r f1 f2 d1 show ?thesis by blast
  qed
  from first second show ?thesis by blast
qed

lemma find_restore_opts_none:
  "list_all other_subtask sts \<Longrightarrow> find_restore_opts sts = Inr (PDict [])"
  using find_restore_opts_skip [of sts "[]"] by simp

lemma py_key_eq_refl [simp]: "py_key_eq k k"
  by (cases k) (simp_all add: py_key_eq_def)

lemma py_lookup_member: "(k, v) \<in> set d \<Longrightarrow> py_lookup d k \<noteq> None"
  by (induction d) auto

lemma apply_overrides_empty_item:
  assumes "(k, v) \<in> set (apply_overrides ov [])"
  shows "\<exists>s. k = str s \<and> py_lookup ov (str s) = Some v"
proof -
  from assms set_apply_overrides_empty [of ov]
  obtain s where kv: "k = str s" "v = dict_get ov s PNone"
    by auto
  from assms have "py_lookup (apply_overrides ov []) k \<noteq> None"
    by (rule py_lookup_member)
  with kv have "dict_get ov s PNone \<noteq> PNone"
    by (auto simp: py_lookup_apply_overrides split: if_splits)
  then have "py_lookup ov (str s) = Some v"
    using kv by (simp add: dict_get_Some)
  with kv show ?thesis by blast
qed

text \<open>
  Claim C9. With no RESTORE subtask in the schedule and a destination override set, the
  builder returns a payload, and the restore options that the payload carries are what the
  overrides give on the empty dictionary: the destination of the override is there, each
  flag is there exactly when its override is set, no other key is there, and every entry
  is one of the three override fields with the value the override set has for it.
\<close>

theorem build_restore_payload_no_restore_subtask:
  assumes "py_get props ''taskInfo'' (PDict []) = Inr (PDict ti)"
    and "dict_get ti ''associations'' (PList []) = PList (map PDict as)"
    and "as \<noteq> []"
    and "dict_get ti ''subTasks'' (PList []) = PList sts"
    and "list_all other_subtask sts"
    and "truthy (dict_get ov ''destination'' PNone)"
  shows "\<exists>payload merged.
           build_restore_payload ov props = Inr payload
         \<and> payload_restore_opts payload = Some merged
         \<and> py_lookup merged (str ''destination'') = Some (dict_get ov ''destination'' PNone)
         \<and> (\<forall>k \<in> {''overwriteFiles'', ''restoreACLsType''}.
              py_lookup merged (str k) =
                (if dict_get ov k PNone \<noteq> PNone then Some (dict_get ov k PNone) else None))
         \<and> (\<forall>k. k \<notin> {str ''destination'', str ''overwriteFiles'', str ''restoreACLsType''} \<longrightarrow>
              py_lookup merged k = None)
         \<and> (\<forall>(k, v) \<in> set merged.
               k \<in> {str ''destination'', str ''overwriteFiles'', str ''restoreACLsType''}
               \<and> py_lookup ov k = Some v)"
proof (intro exI conjI)
  have scan: "find_restore_opts sts = Inr (PDict [])"
    using assms(5) by (rule find_restore_opts_none)
  have iter: "py_iter (dict_get ti ''subTasks'' (PList [])) = Inr sts"
    using assms(4) by simp
  have copy: "py_dict (PDict []) = Inr []"
    by simp
  show "build_restore_payload ov props =
      Inr (make_payload (PList (map (\<lambda>a. PDict (keep_allowed a)) as)) (apply_overrides ov []))"
    by (rule build_restore_payload_returns [OF assms(1-3) iter scan copy])
  show "payload_restore_opts
      (make_payload (PList (map (\<lambda>a. PDict (keep_allowed a)) as)) (apply_overrides ov []))
      = Some (apply_overrides ov [])"
    by simp
  show "py_lookup (apply_overrides ov []) (str ''destination'')
      = Some (dict_get ov ''destination'' PNone)"
    using assms(6) by (simp add: py_lookup_apply_overrides)
  show "\<forall>k \<in> {''overwriteFiles'', ''restoreACLsType''}.
      py_lookup (apply_overrides ov []) (str k) =
        (if dict_get ov k PNone \<noteq> PNone then Some (dict_get ov k PNone) else None)"
    by (simp add: py_lookup_apply_overrides)
  show "\<forall>k. k \<notin> {str ''destination'', str ''overwriteFiles'', str ''restoreACLsType''} \<longrightarrow>
      py_lookup (apply_overrides ov []) k = None"
    by (simp add: py_lookup_apply_overrides)
  show "\<forall>(k, v) \<in> set (apply_overrides ov []).
      k \<in> {str ''destination'', str ''overwriteFiles'', str ''restoreACLsType''}
      \<and> py_lookup ov k = Some v"
  proof (clarify, rule conjI)
    fix k v
    assume kv: "(k, v) \<in> set (apply_overrides ov [])"
    with set_apply_overrides_empty [of ov]
    show "k \<in> {str ''destination'', str ''overwriteFiles'', str ''restoreACLsType''}"
      by auto
    from apply_overrides_empty_item [OF kv] show "py_lookup ov k = Some v"
      by auto
  qed
qed

theorem build_restore_payload_no_restore_subtask_witness:
  "\<exists>payload merged.
      build_restore_payload OVERRIDES (example_props [example_backup]) = Inr payload
    \<and> payload_restore_opts payload = Some merged
    \<and> py_lookup merged (str ''destination'') = py_lookup OVERRIDES (str ''destination'')
    \<and> py_lookup merged (str ''overwriteFiles'') = Some (PBool True)
    \<and> py_lookup merged (str ''restoreACLsType'') = Some (str ''ACL_DATA'')
    \<and> py_lookup merged (str ''allVersion'') = None"
proof -
  have ov: "dict_get OVERRIDES ''overwriteFiles'' PNone = PBool True"
      "dict_get OVERRIDES ''restoreACLsType'' PNone = str ''ACL_DATA''"
      "truthy (dict_get OVERRIDES ''destination'' PNone)"
      "py_lookup OVERRIDES (str ''destination'') = Some (dict_get OVERRIDES ''destination'' PNone)"
    by (simp_all add: OVERRIDES_def dict_get_def)
  have wf: "py_get (example_props [example_backup]) ''taskInfo'' (PDict [])
        = Inr (PDict (example_task_info [example_backup]))"
      "dict_get (example_task_info [example_backup]) ''associations'' (PList [])
        = PList (map PDict [example_association])"
      "[example_association] \<noteq> []"
      "dict_get (example_task_info [example_backup]) ''subTasks'' (PList []) = PList [example_backup]"
      "list_all other_subtask [example_backup]"
    by (simp_all add: example_props_def example_task_info_def example_backup_def
          other_subtask_def dict_get_def)
  from build_restore_payload_no_restore_subtask [OF wf ov(3)]
  obtain payload merged where
    r: "build_restore_payload OVERRIDES (example_props [example_backup]) = Inr payload"
       "payload_restore_opts payload = Some merged"
    and d: "py_lookup merged (str ''destination'') = Some (dict_get OVERRIDES ''destination'' PNone)"
    and f: "\<forall>k \<in> {''overwriteFiles'', ''restoreACLsType''}.
              py_lookup merged (str k) =
                (if dict_get OVERRIDES k PNone \<noteq> PNone then Some (dict_get OVERRIDES k PNone)
                 else None)"
    and k: "\<forall>k. k \<notin> {str ''destination'', str ''overwriteFiles'', str ''restoreACLsType''} \<longrightarrow>
              py_lookup merged k = None"
    by blast
  from f ov have f1: "py_lookup merged (str ''overwriteFiles'') = Some (PBool True)"
    and f2: "py_lookup merged (str ''restoreACLsType'') = Some (str ''ACL_DATA'')"
    by simp_all
  from d ov have d1: "py_lookup merged (str ''destination'') = py_lookup OVERRIDES (str ''destination'')"
    by simp
  from k have k1: "py_lookup merged (str ''allVersion'') = None"
    by simp
  from r f1 f2 d1 k1 show ?thesis by blast
qed

lemma py_lookup_keep_allowed:
  "k \<in> set allow_list \<Longrightarrow> py_lookup (keep_allowed a) (str k) = Some (dict_get a k PNone)"
  by (auto simp: keep_allowed_def allow_list_def)

lemma py_lookup_keep_allowed_other:
  "k \<notin> set (map str allow_list) \<Longrightarrow> py_lookup (keep_allowed a) k = None"
  by (simp add: keep_allowed_def allow_list_def)

lemma keys_keep_allowed: "map fst (keep_allowed a) = map str allow_list"
  by (simp add: keep_allowed_def)

text \<open>
  Claim C4. On a list of association objects \<open>normalize_associations\<close> returns a list of
  the same length whose \<open>i\<close>-th entry has exactly the five allow-listed keys, each with the
  value the \<open>i\<close>-th input has for it (\<open>None\<close> when the input lacks the field), and
  no other key.
\<close>

theorem normalize_associations_allow_list:
  "\<exists>outs. normalize_associations (PList (map PDict as)) = Inr (PList (map PDict outs))
     \<and> length outs = length as
     \<and> (\<forall>i < length as.
           map fst (outs ! i) = map str allow_list
         \<and> (\<forall>k \<in> set allow_list. py_lookup (outs ! i) (str k) = Some (dict_get (as ! i) k PNone))
         \<and> (\<forall>k. k \<notin> set (map str allow_list) \<longrightarrow> py_lookup (outs ! i) k = None))"
proof (intro exI conjI)
  show "normalize_associations (PList (map PDict as)) = Inr (PList (map PDict (map keep_allowed as)))"
    by (simp add: normalize_associations_dicts comp_def)
  show "length (map keep_allowed as) = length as"
    by simp
  show "\<forall>i < length as.
           map fst (map keep_allowed as ! i) = map str allow_list
         \<and> (\<forall>k \<in> set allow_list.
               py_lookup (map keep_allowed as ! i) (str k) = Some (dict_get (as ! i) k PNone))
         \<and> (\<forall>k. k \<notin> set (map str allow_list) \<longrightarrow> py_lookup (map keep_allowed as ! i) k = None)"
    using py_lookup_keep_allowed py_lookup_keep_allowed_other
    by (simp add: keys_keep_allowed)
qed

theorem normalize_associations_allow_list_witness:
  "\<exists>outs. normalize_associations (PList [PDict example_association, PDict []])
             = Inr (PList (map PDict outs))
     \<and> length outs = 2
     \<and> map fst (outs ! 0) = map str allow_list
     \<and> py_lookup (outs ! 0) (str ''clientName'') = Some (str ''c1'')
     \<and> py_lookup (outs ! 0) (str ''hostName'') = None
     \<and> py_lookup (outs ! 1) (str ''clientName'') = Some PNone"
proof -
  from normalize_associations_allow_list [of "[example_association, []]"]
  obtain outs where
    r: "normalize_associations (PList [PDict example_association, PDict []])
          = Inr (PList (map PDict outs))"
       "length outs = 2"
    and p: "\<forall>i < 2.
           map fst (outs ! i) = map str allow_list
         \<and> (\<forall>k \<in> set allow_list.
               py_lookup (outs ! i) (str k) = Some (dict_get ([example_association, []] ! i) k PNone))
         \<and> (\<forall>k. k \<notin> set (map str allow_list) \<longrightarrow> py_lookup (outs ! i) k = None)"
    by auto
  from p have p0: "map fst (outs ! 0) = map str allow_list"
      "py_lookup (outs ! 0) (str ''clientName'') = Some (dict_get example_association ''clientName'' PNone)"
      "py_lookup (outs ! 0) (str ''hostName'') = None"
    by (simp_all add: allow_list_def)
  from p have p1: "py_lookup (outs ! 1) (str ''clientName'') = Some (dict_get [] ''clientName'' PNone)"
    by (simp add: allow_list_def)
  from r p0 p1 show ?thesis
    by (auto simp: example_association_def dict_get_def)
qed

section \<open>The recent-jobs scan\<close>

lemma recent_entry_dict:
  "recent_entry lib cfg cutoff jid (PDict d) =
     and_then (if isinstance_int_float (submit_time_field d)
               then and_then (fromtimestamp lib (submit_time_field d)) (\<lambda>t. Inr (Some t))
               else Inr None) (\<lambda>submitted.
     and_then (py_lower lib (user_field d)) (\<lambda>user.
       (case submitted of
          None \<Rightarrow> Inr None
        | Some t \<Rightarrow>
            if cutoff \<le> t \<and> str_contains (str_lower lib (USER cfg)) user
            then Inr (Some (jid, t, dict_get d ''status'' PNone))
            else Inr None)))"
  by (simp add: recent_entry_def submit_time_field_def user_field_def py_or_def
        cong: if_cong option.case_cong)

lemma py_lower_Inr: "py_lower lib v = Inr s \<longleftrightarrow> (\<exists>u. v = PStr u \<and> s = str_lower lib u)"
  by (cases v) auto

lemma str_contains_sublist: "str_contains needle hay \<longleftrightarrow> sublist needle hay"
  by (induction hay) (simp_all add: sublist_Cons_right)

text \<open>When the body of the \<open>try\<close> appends an entry, and what it appends.\<close>

lemma recent_entry_Some_iff:
  "recent_entry lib cfg cutoff jid (PDict d) = Inr (Some r) \<longleftrightarrow>
     isinstance_int_float (submit_time_field d)
   \<and> (\<exists>t u. fromtimestamp lib (submit_time_field d) = Inr t \<and> cutoff \<le> t
          \<and> user_field d = PStr u \<and> sublist (str_lower lib (USER cfg)) (str_lower lib u)
          \<and> r = (jid, t, dict_get d ''status'' PNone))"
proof (cases "isinstance_int_float (submit_time_field d)")
  case False
  then show ?thesis
    by (auto simp: recent_entry_dict and_then_eq_Inr)
next
  case True
  show ?thesis
  proof (cases "fromtimestamp lib (submit_time_field d)")
    case (Inl e)
    with True show ?thesis by (simp add: recent_entry_dict)
  next
    case (Inr t)
    show ?thesis
    proof (cases "py_lower lib (user_field d)")
      case (Inl e)
      then have "\<And>u. user_field d \<noteq> PStr u" by auto
      with True Inr Inl show ?thesis by (simp add: recent_entry_dict)
    next
      case user: (Inr user)
      then obtain u where u: "user_field d = PStr u" "user = str_lower lib u"
        by (auto simp: py_lower_Inr)
      with True Inr user show ?thesis
        by (auto simp: recent_entry_dict str_contains_sublist)
    qed
  qed
qed

lemma recent_entry_SomeD:
  assumes "recent_entry lib cfg cutoff jid details = Inr (Some r)"
  shows "fst r = jid \<and> (\<exists>d. details = PDict d)"
proof (cases details)
  case (PDict d)
  with assms show ?thesis by (auto simp: recent_entry_Some_iff)
qed (use assms in \<open>simp_all add: recent_entry_def\<close>)

lemma set_scan_jobs:
  "set (scan_jobs lib cfg cutoff items recent) =
     set recent \<union> {r. \<exists>jid details. (jid, details) \<in> set items
                        \<and> recent_entry lib cfg cutoff jid details = Inr (Some r)}"
proof (induction items arbitrary: recent)
  case Nil
  show ?case by simp
next
  case (Cons item items)
  obtain jid details where item: "item = (jid, details)" by (cases item)
  show ?case
  proof (cases "recent_entry lib cfg cutoff jid details")
    case (Inl e)
    with Cons item show ?thesis by auto
  next
    case (Inr x)
    show ?thesis
    proof (cases x)
      case None
      with Inr Cons item show ?thesis by auto
    next
      case (Some r)
      with Inr Cons [of "recent @ [r]"] item show ?thesis by auto
    qed
  qed
qed

lemma printed_times_job_lines:
  "printed_times (map job_line xs) = map (\<lambda>x. fst (snd x)) xs"
  by (induction xs) (auto simp: printed_times_def map_filter_simps)

lemma printed_times_out:
  "printed_times [No_recent_jobs] = []"
  "printed_times (Jobs_header # ls) = printed_times ls"
  by (simp_all add: printed_times_def map_filter_simps)

lemma list_recent_jobs_Inr:
  assumes "list_recent_jobs lib cfg now all_jobs = Inr out"
  shows "\<exists>cutoff items. cutoff_of cfg now = Inr cutoff
           \<and> py_items (py_or all_jobs (PDict [])) = Inr items
           \<and> (out = [No_recent_jobs] \<and> scan_jobs lib cfg cutoff items [] = []
              \<or> out = Jobs_header #
                   map job_line (sort_key (\<lambda>x. fst (snd x)) (scan_jobs lib cfg cutoff items [])))"
  using assms
  by (auto simp: list_recent_jobs_def and_then_eq_Inr Let_def split: if_splits)

lemma distinct_keys_same_value:
  "distinct (map fst xs) \<Longrightarrow> (k, v) \<in> set xs \<Longrightarrow> (k, v') \<in> set xs \<Longrightarrow> v = v'"
  by (induction xs) (auto simp: image_iff)

text \<open>The job lines printed are the entries that the loop appended.\<close>

lemma job_line_printed_iff:
  assumes out: "list_recent_jobs lib cfg now (PDict jobs) = Inr out"
    and c: "cutoff_of cfg now = Inr cutoff"
  shows "Job_line jid t status \<in> set out \<longleftrightarrow>
           (jid, t, status) \<in> set (scan_jobs lib cfg cutoff jobs [])"
proof -
  have items: "py_items (py_or (PDict jobs) (PDict [])) = Inr jobs"
    by (cases jobs) (simp_all add: py_or_def)
  from list_recent_jobs_Inr [OF out] items c
  have o: "out = [No_recent_jobs] \<and> scan_jobs lib cfg cutoff jobs [] = []
            \<or> out = Jobs_header #
                 map job_line (sort_key (\<lambda>x. fst (snd x)) (scan_jobs lib cfg cutoff jobs []))"
    by auto
  have inj: "Job_line jid t status = job_line r \<longleftrightarrow> r = (jid, t, status)" for r
    by (cases r) auto
  from o show ?thesis
    by (auto simp: image_iff inj)
qed

lemma job_line_entry_iff:
  assumes out: "list_recent_jobs lib cfg now (PDict jobs) = Inr out"
    and c: "cutoff_of cfg now = Inr cutoff"
    and dist: "distinct (map fst jobs)"
    and mem: "(jid, details) \<in> set jobs"
  shows "Job_line jid t status \<in> set out \<longleftrightarrow>
           recent_entry lib cfg cutoff jid details = Inr (Some (jid, t, status))"
proof
  assume "Job_line jid t status \<in> set out"
  then have "(jid, t, status) \<in> set (scan_jobs lib cfg cutoff jobs [])"
    by (simp add: job_line_printed_iff [OF out c])
  then obtain jid' details' where m: "(jid', details') \<in> set jobs"
    and e: "recent_entry lib cfg cutoff jid' details' = Inr (Some (jid, t, status))"
    by (auto simp: set_scan_jobs)
  from recent_entry_SomeD [OF e] have j: "jid' = jid"
    by simp
  with m mem dist have "details' = details"
    by (auto dest: distinct_keys_same_value)
  with e j show "recent_entry lib cfg cutoff jid details = Inr (Some (jid, t, status))"
    by simp
next
  assume "recent_entry lib cfg cutoff jid details = Inr (Some (jid, t, status))"
  with mem have "(jid, t, status) \<in> set (scan_jobs lib cfg cutoff jobs [])"
    by (auto simp: set_scan_jobs)
  then show "Job_line jid t status \<in> set out"
    by (simp add: job_line_printed_iff [OF out c])
qed

text \<open>The examples, evaluated.\<close>

lemma example_cutoff: "cutoff_of example_config example_now = Inr 1699999820000000"
  by (simp add: cutoff_of_def example_config_def example_now_def min_us_def max_us_def)

lemma example_scan:
  "scan_jobs lib example_config 1699999820000000 example_jobs [] =
     [(PInt 1, 1699999990000000, str ''Running''), (PInt 4, 1699999900000000, PNone)]"
  by (simp add: example_jobs_def example_config_def recent_entry_def dict_get_def
        in_datetime_range_def min_us_def max_us_def py_lower_str str_lower_def ascii_lower_def)

lemma example_out:
  "list_recent_jobs lib example_config example_now (PDict example_jobs) =
     Inr [Jobs_header, Job_line (PInt 4) 1699999900000000 PNone,
          Job_line (PInt 1) 1699999990000000 (str ''Running'')]"
proof -
  have "py_or (PDict example_jobs) (PDict []) = PDict example_jobs"
    by (simp add: py_or_def example_jobs_def)
  then show ?thesis
    by (simp add: list_recent_jobs_def example_cutoff example_scan sort_key_def)
qed

text \<open>
  Claim C8. The job lines that \<open>list_recent_jobs\<close> prints are in nondecreasing order of
  submit time, whatever the job list is.
\<close>

theorem list_recent_jobs_sorted:
  assumes "list_recent_jobs lib cfg now all_jobs = Inr out"
  shows "sorted (printed_times out)"
proof -
  from list_recent_jobs_Inr [OF assms] obtain recent where
    "out = [No_recent_jobs] \<or> out = Jobs_header # map job_line (sort_key (\<lambda>x. fst (snd x)) recent)"
    by blast
  then show ?thesis
    by (auto simp: printed_times_out printed_times_job_lines)
qed

theorem list_recent_jobs_sorted_witness:
  "list_recent_jobs example_stdlib example_config example_now (PDict example_jobs) =
     Inr [Jobs_header, Job_line (PInt 4) 1699999900000000 PNone,
          Job_line (PInt 1) 1699999990000000 (str ''Running'')]
   \<and> sorted [1699999900000000, 1699999990000000 :: int]"
  using list_recent_jobs_sorted [OF example_out [of example_stdlib]] example_out [of example_stdlib]
  by (simp add: printed_times_def map_filter_simps)

text \<open>
  Claim C10. A job whose submit-time value (\<open>submitTime\<close>, or \<open>startTime\<close> when that is
  missing or falsy) is absent or is not a number in the sense of the test
  \<open>isinstance(submit_time, (int, float))\<close> has no line in the output, whatever its user
  and its other fields are. The keys of the job dictionary are distinct, as they are in any
  dictionary.
\<close>

theorem list_recent_jobs_skips_non_numeric:
  assumes "list_recent_jobs lib cfg now (PDict jobs) = Inr out"
    and "distinct (map fst jobs)"
    and "(jid, PDict d) \<in> set jobs"
    and "\<not> isinstance_int_float (submit_time_field d)"
  shows "Job_line jid t status \<notin> set out"
proof -
  from list_recent_jobs_Inr [OF assms(1)] obtain cutoff where
    c: "cutoff_of cfg now = Inr cutoff"
    by blast
  from assms(4) show ?thesis
    by (simp add: job_line_entry_iff [OF assms(1) c assms(2,3)] recent_entry_Some_iff)
qed

theorem list_recent_jobs_skips_non_numeric_witness:
  "submit_time_field [(str ''submitTime'', str ''2023-11-14T22:13:00Z''),
                      (str ''userName'', str ''bob'')] = str ''2023-11-14T22:13:00Z''
   \<and> Job_line (PInt 3) 1699999980000000 PNone
       \<notin> set [Jobs_header, Job_line (PInt 4) 1699999900000000 PNone,
               Job_line (PInt 1) 1699999990000000 (str ''Running'')]"
  using list_recent_jobs_skips_non_numeric
    [OF example_out [of example_stdlib], of "PInt 3"
        "[(str ''submitTime'', str ''2023-11-14T22:13:00Z''), (str ''userName'', str ''bob'')]"
        1699999980000000 PNone]
  by (simp add: example_jobs_def submit_time_field_def dict_get_def py_or_def)

text \<open>
  Claim C2, as stated, does not hold. The scan tests whether the lower-case configured user
  occurs inside the lower-case user field, so for the configured user \<open>bob\<close> it prints a
  job of user \<open>Bobby\<close>; and it compares the submit time with the start of the window only,
  so it prints a job whose submit time is an hour after the clock reading, outside the
  trailing three minutes.
\<close>

theorem list_recent_jobs_keeps_other_users:
  "list_recent_jobs example_stdlib \<lparr>USER = map of_char ''bob'', RECENT_WINDOW_MINUTES = 3\<rparr>
     1700000000000000
     (PDict [(PInt 7, PDict [(str ''submitTime'', PInt 1699999990),
                             (str ''userName'', str ''Bobby'')]),
             (PInt 8, PDict [(str ''submitTime'', PInt 1700003600),
                             (str ''userName'', str ''bob'')])])
   = Inr [Jobs_header, Job_line (PInt 7) 1699999990000000 PNone,
          Job_line (PInt 8) 1700003600000000 PNone]"
  by (simp add: list_recent_jobs_def cutoff_of_def min_us_def max_us_def py_or_def
        recent_entry_def dict_get_def in_datetime_range_def sort_key_def py_lower_str
        str_lower_def ascii_lower_def)

text \<open>
  Claim C2, amended. A job of the job list has a line in the output exactly when its
  submit-time value is a number that \<open>fromtimestamp\<close> turns into a \<open>datetime\<close> not earlier
  than \<open>cutoff\<close> (the clock reading minus \<open>RECENT_WINDOW_MINUTES\<close>) and its user field is a
  string whose lower case has the lower-case configured user as a contiguous part
  (\<open>sublist\<close>); the line then shows that time and the status of the job. So the scan
  excludes every job submitted before the window and every job whose user field does not
  contain the configured user, and prints every other job with a readable submit time,
  the two of the example above among them.
\<close>

theorem list_recent_jobs_line_iff:
  assumes "list_recent_jobs lib cfg now (PDict jobs) = Inr out"
    and "cutoff_of cfg now = Inr cutoff"
    and "distinct (map fst jobs)"
    and "(jid, PDict d) \<in> set jobs"
  shows "Job_line jid t status \<in> set out \<longleftrightarrow>
           isinstance_int_float (submit_time_field d)
         \<and> fromtimestamp lib (submit_time_field d) = Inr t \<and> cutoff \<le> t
         \<and> (\<exists>u. user_field d = PStr u \<and> sublist (str_lower lib (USER cfg)) (str_lower lib u))
         \<and> status = dict_get d ''status'' PNone"
proof -
  have "Job_line jid t status \<in> set out \<longleftrightarrow>
      recent_entry lib cfg cutoff jid (PDict d) = Inr (Some (jid, t, status))"
    by (rule job_line_entry_iff [OF assms])
  also have "\<dots> \<longleftrightarrow>
      isinstance_int_float (submit_time_field d)
    \<and> fromtimestamp lib (submit_time_field d) = Inr t \<and> cutoff \<le> t
    \<and> (\<exists>u. user_field d = PStr u \<and> sublist (str_lower lib (USER cfg)) (str_lower lib u))
    \<and> status = dict_get d ''status'' PNone"
    by (auto simp: recent_entry_Some_iff)
  finally show ?thesis .
qed

theorem list_recent_jobs_line_iff_witness:
  "Job_line (PInt 2) 1699999950000000 PNone
     \<notin> set [Jobs_header, Job_line (PInt 4) 1699999900000000 PNone,
             Job_line (PInt 1) 1699999990000000 (str ''Running'')]
   \<and> \<not> sublist (str_lower example_stdlib (USER example_config))
              (str_lower example_stdlib (map of_char ''alice''))
   \<and> Job_line (PInt 5) 1699990000000000 PNone
     \<notin> set [Jobs_header, Job_line (PInt 4) 1699999900000000 PNone,
             Job_line (PInt 1) 1699999990000000 (str ''Running'')]
   \<and> \<not> (1699999820000000 :: int) \<le> 1699990000000000
   \<and> Job_line (PInt 1) 1699999990000000 (str ''Running'')
     \<in> set [Jobs_header, Job_line (PInt 4) 1699999900000000 PNone,
             Job_line (PInt 1) 1699999990000000 (str ''Running'')]
   \<and> sublist (str_lower example_stdlib (USER example_config))
            (str_lower example_stdlib (map of_char ''BOB''))"
proof -
  note iff = list_recent_jobs_line_iff
    [OF example_out [of example_stdlib] example_cutoff, unfolded example_jobs_def]
  have alice: "\<not> sublist (str_lower example_stdlib (USER example_config))
                        (str_lower example_stdlib (map of_char ''alice''))"
    and bob: "sublist (str_lower example_stdlib (USER example_config))
                      (str_lower example_stdlib (map of_char ''BOB''))"
    by (simp_all add: example_config_def str_lower_def ascii_lower_def flip: str_contains_sublist)
  have "Job_line (PInt 2) 1699999950000000 PNone
     \<notin> set [Jobs_header, Job_line (PInt 4) 1699999900000000 PNone,
             Job_line (PInt 1) 1699999990000000 (str ''Running'')]"
    using alice
    by (subst iff [of "PInt 2" "[(str ''submitTime'', PInt 1699999950), (str ''userName'', str ''alice'')]"])
       (simp_all add: user_field_def dict_get_def py_or_def)
  moreover have "Job_line (PInt 5) 1699990000000000 PNone
     \<notin> set [Jobs_header, Job_line (PInt 4) 1699999900000000 PNone,
             Job_line (PInt 1) 1699999990000000 (str ''Running'')]"
    by (subst iff [of "PInt 5" "[(str ''submitTime'', PInt 1699990000), (str ''userName'', str ''bob'')]"])
       (simp_all add: submit_time_field_def dict_get_def py_or_def in_datetime_range_def
          min_us_def max_us_def)
  moreover have "Job_line (PInt 1) 1699999990000000 (str ''Running'')
     \<in> set [Jobs_header, Job_line (PInt 4) 1699999900000000 PNone,
             Job_line (PInt 1) 1699999990000000 (str ''Running'')]"
    using bob
    by (subst iff [of "PInt 1" "[(str ''submitTime'', PInt 1699999990), (str ''userName'', str ''BOB''),
                      (str ''status'', str ''Running'')]"])
       (simp_all add: submit_time_field_def user_field_def dict_get_def py_or_def
          in_datetime_range_def min_us_def max_us_def)
  ultimately show ?thesis using alice bob by simp
qed


section \<open>Policy invocation\<close>

lemma run_by_task_ids_loop_items:
  "map line_item (fst (run_by_task_ids_loop sp ids w out)) = map line_item out @ map Some ids"
  by (induction ids arbitrary: w out) (auto split: sum.splits prod.splits)

text \<open>Once the constructor has returned, \<open>run_by_task_ids\<close> prints one line for every id,
  in list order, and returns normally: no failed lookup and no failed run stops the ids
  after it.\<close>

lemma run_by_task_ids_all_items:
  assumes "construct sp w = None"
  shows "map line_item (fst (run_by_task_ids sp ids w)) = map Some ids
         \<and> snd (snd (run_by_task_ids sp ids w)) = None"
  using assms run_by_task_ids_loop_items [of sp ids w "[]"]
  by (cases "run_by_task_ids_loop sp ids w []") (simp add: run_by_task_ids_def)

text \<open>
  Claim C7. Policy invocation is to process every item of the list, an item whose lookup
  fails being skipped with a warning. \<open>run_by_names\<close> does not: \<open>sp.get(name)\<close> is called
  outside the \<open>try\<close>. On a platform where \<open>has_policy\<close> reports both names present and
  \<open>get\<close> raises for the first, it ends with that exception after the count line and
  neither looks up nor runs the second name; on the same platform \<open>run_by_task_ids\<close>, which
  has the call inside a \<open>try\<close>, warns about the first and runs the second. The call
  \<open>sp.all_schedule_policies()\<close> stands outside any \<open>try\<close> as well: where it raises,
  \<open>run_by_names\<close> ends before it has processed any name.
\<close>

theorem run_by_names_stops_when_get_raises:
  "run_by_names flaky_sp [''nightly'', ''weekly''] () = ([Found 2], (), Some ''timeout'')
   \<and> run_by_task_ids flaky_sp [''nightly'', ''weekly''] ()
       = ([Not_found ''nightly'', Started ''weekly'' [101]], (), None)
   \<and> run_by_names listing_fails_sp [''nightly'', ''weekly''] () = ([], (), Some ''not callable'')"
  by (simp add: run_by_names_def run_by_task_ids_def flaky_sp_def listing_fails_sp_def)

end
